theory Spec2Isabelle
  imports Main
begin

section \<open>Python values and strings\<close>

text \<open>
  The handlers of \<^verbatim>\<open>model_typer.py\<close> observe attribute and keyword values in two ways
  only: the test \<^verbatim>\<open>value is not None\<close> and the conversion \<^verbatim>\<open>str(value)\<close> of an f-string.
  A value is therefore \<^verbatim>\<open>None\<close>, an \<^verbatim>\<open>int\<close>, a \<^verbatim>\<open>bool\<close>, a \<^verbatim>\<open>str\<close>, or any other
  object (a \<^verbatim>\<open>datetime\<close>, say) carried by its \<^verbatim>\<open>str()\<close> form.
\<close>

datatype pyval = PNone | PInt int | PBool bool | PStr string | PObj string

definition digit_char :: "nat \<Rightarrow> char" where
  "digit_char d = char_of (48 + d)"

function str_nat :: "nat \<Rightarrow> string" where
  "str_nat n = (if n < 10 then [digit_char n] else str_nat (n div 10) @ [digit_char (n mod 10)])"
  by pat_completeness auto
termination
  by (relation "measure id") auto

declare str_nat.simps [simp del]

definition str_int :: "int \<Rightarrow> string" where
  "str_int i = (if i < 0 then CHR ''-'' # str_nat (nat (- i)) else str_nat (nat i))"

fun py_str :: "pyval \<Rightarrow> string" where
  "py_str PNone = ''None''"
| "py_str (PInt i) = str_int i"
| "py_str (PBool b) = (if b then ''True'' else ''False'')"
| "py_str (PStr s) = s"
| "py_str (PObj s) = s"

text \<open>\<^verbatim>\<open>str.upper()\<close> on the ASCII letters (class names are taken to be ASCII).\<close>

definition upper_char :: "char \<Rightarrow> char" where
  "upper_char c =
     (let n = (of_char c :: nat) in if 97 \<le> n \<and> n \<le> 122 then char_of (n - 32) else c)"

definition upper :: "string \<Rightarrow> string" where
  "upper s = map upper_char s"

text \<open>\<^verbatim>\<open>sep.join(parts)\<close>.\<close>

fun join :: "string \<Rightarrow> string list \<Rightarrow> string" where
  "join sep [] = []"
| "join sep [x] = x"
| "join sep (x # y # ys) = x @ sep @ join sep (y # ys)"

section \<open>Exceptions\<close>

text \<open>
  The exceptions that can leave a handler. Messages are kept only where the source
  gives the key or attribute; \<open>LayerError\<close> is any other exception of the persistence
  layer.
\<close>

datatype exn =
    DoesNotExist
  | KeyError string
  | AttributeError string
  | TypeError
  | ValueError
  | LayerError string

section \<open>Field descriptors and the field-type mapper\<close>

text \<open>
  The classes \<^verbatim>\<open>_get_field_type\<close> tests with \<^verbatim>\<open>isinstance\<close>; in Tortoise none of the
  four is a subclass of another, and every other field class is \<open>OtherField\<close>.
\<close>

datatype field_class = IntField | BooleanField | DatetimeField | DateField | OtherField

text \<open>
  \<open>auto_now\<close> and \<open>auto_now_add\<close> are \<open>None\<close> where the field object has no such
  attribute (\<^verbatim>\<open>hasattr\<close> is false). \<open>default\<close> is the attribute \<^verbatim>\<open>field.default\<close>, \<open>PNone\<close>
  when the field was declared without one.
\<close>

record field =
  cls :: field_class
  pk :: bool
  null :: bool
  default :: pyval
  auto_now :: "bool option"
  auto_now_add :: "bool option"

text \<open>
  The objects \<^verbatim>\<open>_get_field_type\<close> can return. The module starts with
  \<^verbatim>\<open>from datetime import datetime\<close>, so its global name \<^verbatim>\<open>datetime\<close> is the class
  \<^verbatim>\<open>datetime.datetime\<close>, and the expression \<^verbatim>\<open>datetime.date\<close> of line 89 is the
  attribute \<^verbatim>\<open>date\<close> of that class: its method \<^verbatim>\<open>date()\<close>, which gives the date part of
  a timestamp. The type \<^verbatim>\<open>date\<close> (\<open>Class_date\<close>) is an attribute of the module
  \<^verbatim>\<open>datetime\<close>, which this file never binds to a name.
\<close>

datatype pyobj =
    Class_int
  | Class_bool
  | Class_str
  | Class_datetime
  | Class_date
  | Method_datetime_date

definition global_datetime :: pyobj where
  "global_datetime = Class_datetime"

definition global_datetime_dot_date :: pyobj where
  "global_datetime_dot_date = Method_datetime_date"

definition get_field_type :: "field \<Rightarrow> pyobj" where
  "get_field_type field =
     (if cls field = IntField then Class_int
      else if cls field = BooleanField then Class_bool
      else if cls field = DatetimeField then global_datetime
      else if cls field = DateField then global_datetime_dot_date
      else Class_str)"

text \<open>The five scalar types of the mapper's contract.\<close>

definition scalar_type :: "pyobj \<Rightarrow> bool" where
  "scalar_type t = (t \<in> {Class_int, Class_bool, Class_datetime, Class_date, Class_str})"

section \<open>The signature synthesizer\<close>

text \<open>
  \<^verbatim>\<open>inspect.Parameter\<close> objects. The default of a parameter is a Typer marker:
  \<^verbatim>\<open>Argument(..., help=h)\<close> or \<^verbatim>\<open>Option(...)\<close> for a required one, \<^verbatim>\<open>Option(None)\<close> for
  an optional one whose value, when the flag is absent, is \<^verbatim>\<open>None\<close>.
\<close>

datatype param_kind = POSITIONAL_ONLY | POSITIONAL_OR_KEYWORD | KEYWORD_ONLY

datatype marker = Ellipsis | NoneSentinel

datatype typer_default = Argument marker "string option" | Option marker

record parameter =
  p_name :: string
  p_kind :: param_kind
  p_default :: typer_default
  p_annotation :: pyobj

fun marker_of :: "typer_default \<Rightarrow> marker" where
  "marker_of (Argument m h) = m"
| "marker_of (Option m) = m"

definition required :: "parameter \<Rightarrow> bool" where
  "required p = (marker_of (p_default p) = Ellipsis)"

text \<open>
  A model class: its \<^verbatim>\<open>__name__\<close> and \<^verbatim>\<open>_meta.fields_map\<close>, a dict, kept as the list of
  its items in insertion order (the keys of a dict are distinct).
\<close>

record model =
  model_name :: string
  fields_map :: "(string \<times> field) list"

definition id_parameter :: parameter where
  "id_parameter =
     \<lparr>p_name = ''id'', p_kind = POSITIONAL_ONLY,
      p_default = Argument Ellipsis (Some ''ID of the instance''),
      p_annotation = Class_int\<rparr>"

text \<open>The test of lines 113-117 that sends the loop to \<^verbatim>\<open>continue\<close>.\<close>

definition skipped :: "field \<Rightarrow> bool" where
  "skipped field =
     (pk field
      \<or> (case auto_now field of None \<Rightarrow> False | Some b \<Rightarrow> b)
      \<or> (case auto_now_add field of None \<Rightarrow> False | Some b \<Rightarrow> b))"

definition is_required :: "field \<Rightarrow> bool \<Rightarrow> bool" where
  "is_required field force_optional =
     (\<not> null field \<and> default field = PNone \<and> \<not> force_optional)"

definition field_parameter :: "string \<Rightarrow> field \<Rightarrow> bool \<Rightarrow> parameter" where
  "field_parameter name field force_optional =
     \<lparr>p_name = name, p_kind = KEYWORD_ONLY,
      p_default = Option (if is_required field force_optional then Ellipsis else NoneSentinel),
      p_annotation = get_field_type field\<rparr>"

text \<open>The loop of lines 111-133 over the items of the field mapping.\<close>

fun fields_loop :: "(string \<times> field) list \<Rightarrow> bool \<Rightarrow> parameter list \<Rightarrow> parameter list" where
  "fields_loop [] force_optional parameters = parameters"
| "fields_loop ((name, field) # rest) force_optional parameters =
     (if skipped field then fields_loop rest force_optional parameters
      else fields_loop rest force_optional
             (parameters @ [field_parameter name field force_optional]))"

text \<open>Lines 100-133: the list handed to \<^verbatim>\<open>Signature\<close>.\<close>

definition model_parameters :: "model \<Rightarrow> bool \<Rightarrow> bool \<Rightarrow> parameter list" where
  "model_parameters m force_optional add_id_argument =
     fields_loop (fields_map m) force_optional
       (if add_id_argument then [id_parameter] else [])"

text \<open>
  \<^verbatim>\<open>inspect.Signature(parameters)\<close> validates its argument. The kinds built here are in
  the order it wants and every parameter has a default, so the one check that can
  fail is the one on names: two parameters of one name raise \<^verbatim>\<open>ValueError\<close>.
\<close>

definition Signature :: "parameter list \<Rightarrow> exn + parameter list" where
  "Signature parameters =
     (if distinct (map p_name parameters) then Inr parameters else Inl ValueError)"

text \<open>
  \<^verbatim>\<open>_inject_model_signature\<close>: the result is the signature attached to \<^verbatim>\<open>func\<close>
  (the function itself is returned unchanged otherwise).
\<close>

definition inject_model_signature :: "model \<Rightarrow> bool \<Rightarrow> bool \<Rightarrow> exn + parameter list" where
  "inject_model_signature m force_optional add_id_argument =
     Signature (model_parameters m force_optional add_id_argument)"

section \<open>The persistence layer and the console\<close>

text \<open>
  A model instance is its attributes by name; the keyword arguments of a handler are
  a dict, kept as the list of its items.
\<close>

type_synonym model_instance = "(string \<times> pyval) list"

type_synonym kwargs = "(string \<times> pyval) list"

text \<open>
  The persistence layer is a collaborator, not code of this module: the handlers are
  defined over any layer, given by what each of its five operations does to a store
  \<open>'s\<close> and what it returns or raises. \<^verbatim>\<open>instance.save()\<close> returns the instance as the
  call leaves it (the object is updated in place). \<open>instance_str\<close> is \<^verbatim>\<open>str(instance)\<close>.
\<close>

record 's layer =
  model_create :: "kwargs \<Rightarrow> 's \<Rightarrow> (exn + model_instance) \<times> 's"
  model_get :: "pyval \<Rightarrow> 's \<Rightarrow> (exn + model_instance) \<times> 's"
  model_all :: "'s \<Rightarrow> (exn + model_instance list) \<times> 's"
  instance_save :: "model_instance \<Rightarrow> 's \<Rightarrow> (exn + model_instance) \<times> 's"
  instance_delete :: "model_instance \<Rightarrow> 's \<Rightarrow> (exn + unit) \<times> 's"
  instance_str :: "model_instance \<Rightarrow> string"

text \<open>
  What a handler does to the outside is recorded in order: each call of the
  persistence layer and each thing printed on the console (a panel with its title,
  border style and message, or the table of \<^verbatim>\<open>listing\<close>).
\<close>

datatype pcall =
    CallCreate kwargs
  | CallGet pyval
  | CallAll
  | CallSave model_instance
  | CallDelete model_instance

datatype console_output = Panel string string string | Table string "(string \<times> string) list"

datatype event = Persist pcall | Console console_output

record 's world =
  store :: 's
  trace :: "event list"

definition perform :: "pcall \<Rightarrow> ('s \<Rightarrow> 'r \<times> 's) \<Rightarrow> 's world \<Rightarrow> 'r \<times> 's world" where
  "perform c f w =
     (let (r, s') = f (store w) in (r, \<lparr>store = s', trace = trace w @ [Persist c]\<rparr>))"

definition call_create :: "'s layer \<Rightarrow> kwargs \<Rightarrow> 's world \<Rightarrow> (exn + model_instance) \<times> 's world" where
  "call_create L kw = perform (CallCreate kw) (model_create L kw)"

definition call_get :: "'s layer \<Rightarrow> pyval \<Rightarrow> 's world \<Rightarrow> (exn + model_instance) \<times> 's world" where
  "call_get L i = perform (CallGet i) (model_get L i)"

definition call_all :: "'s layer \<Rightarrow> 's world \<Rightarrow> (exn + model_instance list) \<times> 's world" where
  "call_all L = perform CallAll (model_all L)"

definition call_save :: "'s layer \<Rightarrow> model_instance \<Rightarrow> 's world \<Rightarrow> (exn + model_instance) \<times> 's world" where
  "call_save L inst = perform (CallSave inst) (instance_save L inst)"

definition call_delete :: "'s layer \<Rightarrow> model_instance \<Rightarrow> 's world \<Rightarrow> (exn + unit) \<times> 's world" where
  "call_delete L inst = perform (CallDelete inst) (instance_delete L inst)"

text \<open>\<^verbatim>\<open>_make_panel_printer\<close> and the three printers made from it.\<close>

definition make_panel_printer :: "string \<Rightarrow> string \<Rightarrow> string \<Rightarrow> 's world \<Rightarrow> 's world" where
  "make_panel_printer title border_style message w =
     w\<lparr>trace := trace w @ [Console (Panel title border_style message)]\<rparr>"

definition error :: "string \<Rightarrow> 's world \<Rightarrow> 's world" where
  "error = make_panel_printer ''Error'' ''red''"

definition warning :: "string \<Rightarrow> 's world \<Rightarrow> 's world" where
  "warning = make_panel_printer ''Warning'' ''yellow''"

definition info :: "string \<Rightarrow> 's world \<Rightarrow> 's world" where
  "info = make_panel_printer ''Info'' ''white''"

text \<open>\<^verbatim>\<open>listing\<close>: one row per instance, numbered from 1.\<close>

fun listing_rows :: "'s layer \<Rightarrow> nat \<Rightarrow> model_instance list \<Rightarrow> (string \<times> string) list" where
  "listing_rows L i [] = []"
| "listing_rows L i (inst # rest) =
     (str_nat i, instance_str L inst) # listing_rows L (Suc i) rest"

definition listing :: "'s layer \<Rightarrow> string \<Rightarrow> model_instance list \<Rightarrow> 's world \<Rightarrow> 's world" where
  "listing L title instances w =
     w\<lparr>trace := trace w @ [Console (Table title (listing_rows L 1 instances))]\<rparr>"

section \<open>The command handlers\<close>

text \<open>
  A handler returns \<open>Inr ()\<close> when it returns normally and \<open>Inl e\<close> when the exception
  \<open>e\<close> leaves it. \<^verbatim>\<open>asyncio.run\<close> runs its coroutine to the end and hands on what it
  returns or raises.
\<close>

definition getattr :: "model_instance \<Rightarrow> string \<Rightarrow> exn + pyval" where
  "getattr inst name =
     (case map_of inst name of None \<Rightarrow> Inl (AttributeError name) | Some v \<Rightarrow> Inr v)"

fun setattr :: "model_instance \<Rightarrow> string \<Rightarrow> pyval \<Rightarrow> model_instance" where
  "setattr [] name v = [(name, v)]"
| "setattr ((n, x) # rest) name v =
     (if n = name then (name, v) # rest else (n, x) # setattr rest name v)"

text \<open>The generator of \<^verbatim>\<open>_show\<close>: one line per key of the field mapping.\<close>

fun show_lines :: "string list \<Rightarrow> model_instance \<Rightarrow> exn + string list" where
  "show_lines [] inst = Inr []"
| "show_lines (field # rest) inst =
     (case getattr inst field of
        Inl e \<Rightarrow> Inl e
      | Inr v \<Rightarrow>
          (case show_lines rest inst of
             Inl e \<Rightarrow> Inl e
           | Inr ls \<Rightarrow> Inr ((''* '' @ field @ '': '' @ py_str v) # ls)))"

definition show_instance :: "model \<Rightarrow> model_instance \<Rightarrow> 's world \<Rightarrow> (exn + unit) \<times> 's world" where
  "show_instance m inst w =
     (case show_lines (map fst (fields_map m)) inst of
        Inl e \<Rightarrow> (Inl e, w)
      | Inr ls \<Rightarrow> (Inr (), info (join [CHR 0x0A] ls) w))"

definition create :: "'s layer \<Rightarrow> model \<Rightarrow> kwargs \<Rightarrow> 's world \<Rightarrow> (exn + unit) \<times> 's world" where
  "create L m kw w =
     (case call_create L kw w of
        (Inl e, w1) \<Rightarrow> (Inl e, w1)
      | (Inr inst, w1) \<Rightarrow>
          (case call_save L inst w1 of
             (Inl e, w2) \<Rightarrow> (Inl e, w2)
           | (Inr inst', w2) \<Rightarrow> show_instance m inst' w2))"

text \<open>\<^verbatim>\<open>args.pop(key)\<close>: the value and the dict without the key, \<open>None\<close> for \<^verbatim>\<open>KeyError\<close>.\<close>

definition pop :: "kwargs \<Rightarrow> string \<Rightarrow> (pyval \<times> kwargs) option" where
  "pop args key =
     (case map_of args key of
        None \<Rightarrow> None
      | Some v \<Rightarrow> Some (v, filter (\<lambda>(k, _). k \<noteq> key) args))"

text \<open>The loop of lines 177-179.\<close>

fun assign_loop :: "kwargs \<Rightarrow> model_instance \<Rightarrow> model_instance" where
  "assign_loop [] inst = inst"
| "assign_loop ((key, v) # rest) inst =
     assign_loop rest (if v \<noteq> PNone then setattr inst key v else inst)"

definition edit :: "'s layer \<Rightarrow> model \<Rightarrow> kwargs \<Rightarrow> 's world \<Rightarrow> (exn + unit) \<times> 's world" where
  "edit L m kw w =
     (case pop kw ''id'' of
        None \<Rightarrow> (Inl (KeyError ''id''), w)
      | Some (i, args) \<Rightarrow>
          (case call_get L i w of
             (Inl e, w1) \<Rightarrow> (Inl e, w1)
           | (Inr inst, w1) \<Rightarrow>
               (case call_save L (assign_loop args inst) w1 of
                  (Inl e, w2) \<Rightarrow> (Inl e, w2)
                | (Inr inst', w2) \<Rightarrow> show_instance m inst' w2)))"

definition list_instances :: "'s layer \<Rightarrow> model \<Rightarrow> 's world \<Rightarrow> (exn + unit) \<times> 's world" where
  "list_instances L m w =
     (let name = upper (model_name m) in
      case call_all L w of
        (Inl e, w1) \<Rightarrow> (Inl e, w1)
      | (Inr instances, w1) \<Rightarrow>
          (if instances = [] then (Inr (), warning (''No '' @ name @ '' instances found.'') w1)
           else (Inr (), listing L name instances w1)))"

definition not_found :: "string \<Rightarrow> int \<Rightarrow> string" where
  "not_found name i = name @ '' with ID '' @ str_int i @ '' not found.''"

definition show_cmd :: "'s layer \<Rightarrow> model \<Rightarrow> int \<Rightarrow> 's world \<Rightarrow> (exn + unit) \<times> 's world" where
  "show_cmd L m i w =
     (let name = upper (model_name m) in
      case call_get L (PInt i) w of
        (Inl e, w1) \<Rightarrow>
          (if e = DoesNotExist then (Inr (), error (not_found name i) w1) else (Inl e, w1))
      | (Inr inst, w1) \<Rightarrow> show_instance m inst w1)"

definition delete :: "'s layer \<Rightarrow> model \<Rightarrow> int \<Rightarrow> 's world \<Rightarrow> (exn + unit) \<times> 's world" where
  "delete L m i w =
     (let name = upper (model_name m);
          handle = (\<lambda>e w'. if e = DoesNotExist then (Inr (), error (not_found name i) w')
                           else (Inl e, w'))
      in case call_get L (PInt i) w of
           (Inl e, w1) \<Rightarrow> handle e w1
         | (Inr inst, w1) \<Rightarrow>
             (case call_delete L inst w1 of
                (Inl e, w2) \<Rightarrow> handle e w2
              | (Inr u, w2) \<Rightarrow>
                  (Inr (), info (name @ '' with ID '' @ str_int i @ '' deleted successfully.'') w2)))"

section \<open>The command registrar and the app shell\<close>

text \<open>
  What \<^verbatim>\<open>ModelTyper\<close> can be given: a subclass of \<^verbatim>\<open>tortoise.models.Model\<close>, another
  class (with its \<^verbatim>\<open>__name__\<close>), or an object that is not a class, with its \<^verbatim>\<open>__name__\<close>
  when it has one (a function or a module has, the number 42 or an instance of a
  model has not).
\<close>

datatype pyarg = ModelClass model | OtherClass string | NonClass "string option"

fun name_attr :: "pyarg \<Rightarrow> exn + string" where
  "name_attr (ModelClass m) = Inr (model_name m)"
| "name_attr (OtherClass n) = Inr n"
| "name_attr (NonClass (Some n)) = Inr n"
| "name_attr (NonClass None) = Inl (AttributeError ''__name__'')"

text \<open>
  \<^verbatim>\<open>issubclass(model, models.Model)\<close>: itself a \<^verbatim>\<open>TypeError\<close> when its first argument
  is not a class; where the answer is yes, the model class is handed on.
\<close>

fun issubclass_Model :: "pyarg \<Rightarrow> exn + model option" where
  "issubclass_Model (ModelClass m) = Inr (Some m)"
| "issubclass_Model (OtherClass n) = Inr None"
| "issubclass_Model (NonClass n) = Inl TypeError"

datatype handler = H_list | H_delete | H_show | H_create | H_edit

record command =
  c_name :: string
  c_help :: string
  c_handler :: handler
  c_signature :: "parameter list"

text \<open>The signature \<^verbatim>\<open>(id: int = id_argument)\<close> that \<^verbatim>\<open>show\<close> and \<^verbatim>\<open>delete\<close> are written with.\<close>

definition id_argument_signature :: "parameter list" where
  "id_argument_signature =
     [\<lparr>p_name = ''id'', p_kind = POSITIONAL_OR_KEYWORD,
       p_default = Argument Ellipsis (Some ''ID of the instance''),
       p_annotation = Class_int\<rparr>]"

text \<open>
  \<^verbatim>\<open>_add_model_methods\<close>, from an app with no command: the commands registered when it
  returns or raises. In \<^verbatim>\<open>self.command(...)(self._inject_model_signature(...))\<close> the
  signature is built before the command is registered.
\<close>

definition add_model_methods :: "pyarg \<Rightarrow> (exn + unit) \<times> command list" where
  "add_model_methods obj =
     (case name_attr obj of
        Inl e \<Rightarrow> (Inl e, [])
      | Inr n \<Rightarrow>
          (let name = upper n in
           case issubclass_Model obj of
             Inl e \<Rightarrow> (Inl e, [])
           | Inr None \<Rightarrow> (Inl TypeError, [])
           | Inr (Some m) \<Rightarrow>
               (let cmds =
                  [\<lparr>c_name = ''list'', c_help = ''List all '' @ name @ '' instances.'',
                    c_handler = H_list, c_signature = []\<rparr>,
                   \<lparr>c_name = ''delete'', c_help = ''Delete a specific '' @ name @ '' instance.'',
                    c_handler = H_delete, c_signature = id_argument_signature\<rparr>,
                   \<lparr>c_name = ''show'', c_help = ''Show a specific '' @ name @ '' instance.'',
                    c_handler = H_show, c_signature = id_argument_signature\<rparr>]
                in case inject_model_signature m False False of
                     Inl e \<Rightarrow> (Inl e, cmds)
                   | Inr create_sig \<Rightarrow>
                       (let cmds' = cmds @
                          [\<lparr>c_name = ''create'',
                            c_help = ''Create a new '' @ name @ '' instance.'',
                            c_handler = H_create, c_signature = create_sig\<rparr>]
                        in case inject_model_signature m True True of
                             Inl e \<Rightarrow> (Inl e, cmds')
                           | Inr edit_sig \<Rightarrow>
                               (Inr (), cmds' @
                                  [\<lparr>c_name = ''edit'',
                                    c_help = ''Edit an existing '' @ name @ '' instance.'',
                                    c_handler = H_edit, c_signature = edit_sig\<rparr>])))))"

text \<open>\<^verbatim>\<open>ModelTyper.__init__\<close>: the parent's constructor, then the registrar.\<close>

definition ModelTyper :: "pyarg \<Rightarrow> (exn + unit) \<times> command list" where
  "ModelTyper obj = add_model_methods obj"

section \<open>A model and a store to run the handlers on\<close>

text \<open>
  The model of the spec's scenarios, \<^verbatim>\<open>Task{id pk, title required text, done boolean
  default=false}\<close>, with a creation timestamp added.
\<close>

definition plain_field :: "field_class \<Rightarrow> field" where
  "plain_field c =
     \<lparr>cls = c, pk = False, null = False, default = PNone, auto_now = None, auto_now_add = None\<rparr>"

definition task_model :: model where
  "task_model =
     \<lparr>model_name = ''Task'',
      fields_map =
        [(''id'', (plain_field IntField)\<lparr>pk := True\<rparr>),
         (''title'', plain_field OtherField),
         (''done'', (plain_field BooleanField)\<lparr>default := PBool False\<rparr>),
         (''created'',
          (plain_field DatetimeField)\<lparr>auto_now := Some False, auto_now_add := Some True\<rparr>)]\<rparr>"

text \<open>
  A small persistence layer over a list of rows: \<^verbatim>\<open>get\<close> finds the row whose \<^verbatim>\<open>id\<close> is
  the one asked for, \<^verbatim>\<open>create\<close> gives the next identifier and fills what was not
  supplied with the field's default, \<^verbatim>\<open>save\<close> replaces the row of the same \<^verbatim>\<open>id\<close> and
  \<^verbatim>\<open>delete\<close> drops it.
\<close>

definition same_id :: "model_instance \<Rightarrow> model_instance \<Rightarrow> bool" where
  "same_id a b = (map_of a ''id'' = map_of b ''id'')"

definition rows_layer :: "model \<Rightarrow> (model_instance list) layer" where
  "rows_layer m =
     \<lparr>model_create = (\<lambda>kw rows.
        (let inst = map (\<lambda>(n, f).
               (n, if pk f then PInt (int (length rows) + 1)
                   else (case map_of kw n of
                           None \<Rightarrow> default f
                         | Some v \<Rightarrow> if v = PNone then default f else v)))
               (fields_map m)
         in (Inr inst, rows @ [inst]))),
      model_get = (\<lambda>i rows.
        (case filter (\<lambda>r. map_of r ''id'' = Some i) rows of
           [] \<Rightarrow> (Inl DoesNotExist, rows)
         | r # _ \<Rightarrow> (Inr r, rows))),
      model_all = (\<lambda>rows. (Inr rows, rows)),
      instance_save = (\<lambda>inst rows. (Inr inst, map (\<lambda>r. if same_id r inst then inst else r) rows)),
      instance_delete = (\<lambda>inst rows. (Inr (), filter (\<lambda>r. \<not> same_id r inst) rows)),
      instance_str = (\<lambda>inst. ''<'' @ model_name m @ ''>'')\<rparr>"

definition task_layer :: "(model_instance list) layer" where
  "task_layer = rows_layer task_model"

definition start :: "model_instance list \<Rightarrow> (model_instance list) world" where
  "start rows = \<lparr>store = rows, trace = []\<rparr>"

definition task1 :: model_instance where
  "task1 = [(''id'', PInt 1), (''title'', PStr ''buy milk''), (''done'', PBool False),
            (''created'', PObj ''2024-01-01 00:00:00'')]"

text \<open>The persistence calls and the console output of a trace.\<close>

fun persist_calls :: "event list \<Rightarrow> pcall list" where
  "persist_calls [] = []"
| "persist_calls (Persist c # es) = c # persist_calls es"
| "persist_calls (Console out # es) = persist_calls es"

fun console :: "event list \<Rightarrow> console_output list" where
  "console [] = []"
| "console (Persist c # es) = console es"
| "console (Console out # es) = out # console es"

fun is_mutation :: "pcall \<Rightarrow> bool" where
  "is_mutation (CallCreate kw) = True"
| "is_mutation (CallSave inst) = True"
| "is_mutation (CallDelete inst) = True"
| "is_mutation (CallGet i) = False"
| "is_mutation CallAll = False"

fun is_delete :: "pcall \<Rightarrow> bool" where
  "is_delete (CallDelete inst) = True"
| "is_delete _ = False"

section \<open>The field-type mapper: results\<close>

text \<open>
  Every field class but \<^verbatim>\<open>DateField\<close> is mapped to one of the five scalar types.
\<close>

lemma get_field_type_scalar_unless_date:
  "cls f \<noteq> DateField \<Longrightarrow> scalar_type (get_field_type f)"
  by (simp add: get_field_type_def scalar_type_def global_datetime_def)

text \<open>
  Claim C3 says that the mapper returns one of the five scalar types for every field
  and that a date field is mapped to the date type. On a \<^verbatim>\<open>DateField\<close> the function
  returns \<^verbatim>\<open>datetime.date\<close> where \<^verbatim>\<open>datetime\<close> is the class \<^verbatim>\<open>datetime.datetime\<close>: the
  method \<^verbatim>\<open>date\<close> of timestamps, which is none of the five types, although the function
  is annotated \<^verbatim>\<open>-> type\<close>.
\<close>

theorem get_field_type_date_is_method:
  "get_field_type (plain_field DateField) = Method_datetime_date
   \<and> \<not> scalar_type (get_field_type (plain_field DateField))"
  by (simp add: get_field_type_def plain_field_def global_datetime_dot_date_def scalar_type_def)

section \<open>The signature synthesizer: what the loop builds\<close>

lemma fields_loop_eq:
  "fields_loop fs fo acc =
     acc @ map (\<lambda>(n, f). field_parameter n f fo) (filter (\<lambda>(n, f). \<not> skipped f) fs)"
  by (induction fs fo acc rule: fields_loop.induct) simp_all

lemma model_parameters_eq:
  "model_parameters m fo aid =
     (if aid then [id_parameter] else [])
     @ map (\<lambda>(n, f). field_parameter n f fo) (filter (\<lambda>(n, f). \<not> skipped f) (fields_map m))"
  by (simp add: model_parameters_def fields_loop_eq)

lemma keyword_parameter_origin:
  assumes "p \<in> set (model_parameters m fo aid)" and "p_kind p = KEYWORD_ONLY"
  shows "\<exists>n f. (n, f) \<in> set (fields_map m) \<and> \<not> skipped f \<and> p = field_parameter n f fo"
  using assms
  by (auto simp: model_parameters_eq id_parameter_def split: if_splits)

lemma distinct_fields_unique:
  assumes "distinct (map fst fs)" and "(n, f) \<in> set fs" and "(n, g) \<in> set fs"
  shows "f = g"
  using assms by (meson eq_key_imp_eq_value)

text \<open>
  Claim C5: in both modes (whatever \<open>force_optional\<close> and \<open>add_id_argument\<close> are), no
  parameter is generated for a field that is the primary key or a timestamp field
  with \<^verbatim>\<open>auto_now\<close> or \<^verbatim>\<open>auto_now_add\<close> set. The parameters generated for fields are the
  keyword-only ones; the identifier parameter of edit mode is positional and is not
  made from a field, though it has the name \<^verbatim>\<open>id\<close> that the primary key usually has.
\<close>

theorem skipped_fields_get_no_parameter:
  assumes "distinct (map fst (fields_map m))"
    and "(n, f) \<in> set (fields_map m)"
    and "pk f \<or> (cls f = DatetimeField \<and> (auto_now f = Some True \<or> auto_now_add f = Some True))"
  shows "\<forall>p \<in> set (model_parameters m fo aid). p_kind p = KEYWORD_ONLY \<longrightarrow> p_name p \<noteq> n"
proof (intro ballI impI notI)
  fix p
  assume p: "p \<in> set (model_parameters m fo aid)" "p_kind p = KEYWORD_ONLY" "p_name p = n"
  from keyword_parameter_origin [OF p(1,2)]
  obtain n' g where g: "(n', g) \<in> set (fields_map m)" "\<not> skipped g" "p = field_parameter n' g fo"
    by blast
  from g(3) p(3) have "n' = n" by (simp add: field_parameter_def)
  with g(1) assms(1,2) have "g = f" by (meson distinct_fields_unique)
  moreover from assms(3) have "skipped f" by (auto simp: skipped_def)
  ultimately show False using g(2) by simp
qed

text \<open>
  The theorem at the \<^verbatim>\<open>Task\<close> model and its primary key, in edit mode.
\<close>

theorem skipped_fields_get_no_parameter_witness:
  "distinct (map fst (fields_map task_model))
   \<and> (''id'', (plain_field IntField)\<lparr>pk := True\<rparr>) \<in> set (fields_map task_model)
   \<and> pk ((plain_field IntField)\<lparr>pk := True\<rparr>)
   \<and> length (filter (\<lambda>p. p_kind p = KEYWORD_ONLY) (model_parameters task_model True True)) = 2
   \<and> ''id'' \<notin> p_name ` set (filter (\<lambda>p. p_kind p = KEYWORD_ONLY)
                                 (model_parameters task_model True True))"
proof -
  have d: "distinct (map fst (fields_map task_model))"
    by (simp add: task_model_def)
  have i: "(''id'', (plain_field IntField)\<lparr>pk := True\<rparr>) \<in> set (fields_map task_model)"
    by (simp add: task_model_def)
  have k: "pk ((plain_field IntField)\<lparr>pk := True\<rparr>)"
    by simp
  then have k': "pk ((plain_field IntField)\<lparr>pk := True\<rparr>)
      \<or> (cls ((plain_field IntField)\<lparr>pk := True\<rparr>) = DatetimeField
          \<and> (auto_now ((plain_field IntField)\<lparr>pk := True\<rparr>) = Some True
              \<or> auto_now_add ((plain_field IntField)\<lparr>pk := True\<rparr>) = Some True))"
    by blast
  have n: "length (filter (\<lambda>p. p_kind p = KEYWORD_ONLY) (model_parameters task_model True True)) = 2"
    by (simp add: model_parameters_def task_model_def skipped_def plain_field_def
        id_parameter_def field_parameter_def)
  from skipped_fields_get_no_parameter [OF d i k', of True True]
  have "''id'' \<notin> p_name ` set (filter (\<lambda>p. p_kind p = KEYWORD_ONLY)
                                 (model_parameters task_model True True))"
    by auto
  with d i k n show ?thesis by blast
qed

text \<open>
  Claim C6: in edit mode (\<^verbatim>\<open>force_optional=True, add_id_argument=True\<close>, as the registrar
  calls the synthesizer for \<^verbatim>\<open>edit\<close>) the list starts with the identifier parameter,
  named \<^verbatim>\<open>id\<close>, required, of type \<^verbatim>\<open>int\<close>, with the help text \<^verbatim>\<open>ID of the instance\<close>, and
  every parameter after it is optional with the null sentinel as default, whatever
  the nullability of its field. This list is the signature attached whenever
  \<^verbatim>\<open>Signature\<close> accepts it, and the signature of the registered \<^verbatim>\<open>edit\<close> command.
\<close>

theorem edit_signature_id_first_rest_optional:
  "\<exists>rest. model_parameters m True True = id_parameter # rest
      \<and> (\<forall>p \<in> set rest. \<not> required p \<and> p_default p = Option NoneSentinel)
      \<and> (\<forall>ps. inject_model_signature m True True = Inr ps \<longrightarrow> ps = id_parameter # rest)
      \<and> (\<forall>cmds c. add_model_methods (ModelClass m) = (Inr (), cmds) \<and> c \<in> set cmds
            \<and> c_name c = ''edit'' \<longrightarrow> c_signature c = id_parameter # rest)
      \<and> p_name id_parameter = ''id'' \<and> required id_parameter
      \<and> p_annotation id_parameter = Class_int
      \<and> p_default id_parameter = Argument Ellipsis (Some ''ID of the instance'')"
proof -
  define rest where
    "rest = map (\<lambda>(n, f). field_parameter n f True) (filter (\<lambda>(n, f). \<not> skipped f) (fields_map m))"
  have a: "model_parameters m True True = id_parameter # rest"
    by (simp add: model_parameters_eq rest_def)
  have b: "\<forall>p \<in> set rest. \<not> required p \<and> p_default p = Option NoneSentinel"
    by (auto simp: rest_def field_parameter_def required_def is_required_def)
  have c: "\<forall>ps. inject_model_signature m True True = Inr ps \<longrightarrow> ps = id_parameter # rest"
    by (auto simp: inject_model_signature_def Signature_def a split: if_splits)
  have d: "\<forall>cmds c. add_model_methods (ModelClass m) = (Inr (), cmds) \<and> c \<in> set cmds
            \<and> c_name c = ''edit'' \<longrightarrow> c_signature c = id_parameter # rest"
    using c by (auto simp: add_model_methods_def Let_def split: sum.splits)
  have e: "p_name id_parameter = ''id'' \<and> required id_parameter
      \<and> p_annotation id_parameter = Class_int
      \<and> p_default id_parameter = Argument Ellipsis (Some ''ID of the instance'')"
    by (simp add: id_parameter_def required_def)
  from a b c d e show ?thesis by blast
qed

text \<open>
  The theorem at the \<^verbatim>\<open>Task\<close> model: two optional parameters follow the identifier.
\<close>

theorem edit_signature_id_first_rest_optional_witness:
  "model_parameters task_model True True =
     [id_parameter, field_parameter ''title'' (plain_field OtherField) True,
      field_parameter ''done'' ((plain_field BooleanField)\<lparr>default := PBool False\<rparr>) True]
   \<and> \<not> required (field_parameter ''title'' (plain_field OtherField) True)
   \<and> p_default (field_parameter ''title'' (plain_field OtherField) True) = Option NoneSentinel
   \<and> \<not> required (field_parameter ''done'' ((plain_field BooleanField)\<lparr>default := PBool False\<rparr>) True)
   \<and> inject_model_signature task_model True True =
       Inr [id_parameter, field_parameter ''title'' (plain_field OtherField) True,
            field_parameter ''done'' ((plain_field BooleanField)\<lparr>default := PBool False\<rparr>) True]"
proof -
  let ?t = "field_parameter ''title'' (plain_field OtherField) True"
  let ?d = "field_parameter ''done'' ((plain_field BooleanField)\<lparr>default := PBool False\<rparr>) True"
  from edit_signature_id_first_rest_optional [of task_model] obtain rest where
    r: "model_parameters task_model True True = id_parameter # rest"
      "\<forall>p \<in> set rest. \<not> required p \<and> p_default p = Option NoneSentinel"
      "\<forall>ps. inject_model_signature task_model True True = Inr ps \<longrightarrow> ps = id_parameter # rest"
    by blast
  have e: "model_parameters task_model True True = [id_parameter, ?t, ?d]"
    by (simp add: model_parameters_def task_model_def skipped_def plain_field_def)
  from r(1) have "rest = tl (model_parameters task_model True True)" by simp
  then have rest: "rest = [?t, ?d]" unfolding e by simp
  from r(2) rest have o: "\<not> required ?t" "p_default ?t = Option NoneSentinel" "\<not> required ?d"
    by simp_all
  have s: "inject_model_signature task_model True True = Inr [id_parameter, ?t, ?d]"
    unfolding inject_model_signature_def Signature_def e
    by (simp add: id_parameter_def field_parameter_def)
  from e o s show ?thesis by blast
qed

text \<open>
  Claim C7: a field that is not skipped gets a keyword-only parameter of its name,
  and that parameter is required exactly when the field is not nullable, has no
  default and \<open>force_optional\<close> is false (create mode); otherwise it is optional and
  its default marker is the null sentinel. Its annotation is the mapped type.
\<close>

theorem field_parameter_requiredness:
  assumes "distinct (map fst (fields_map m))"
    and "(n, f) \<in> set (fields_map m)"
    and "\<not> skipped f"
  shows "(\<exists>p \<in> set (model_parameters m fo aid). p_name p = n \<and> p_kind p = KEYWORD_ONLY)
    \<and> (\<forall>p \<in> set (model_parameters m fo aid). p_name p = n \<and> p_kind p = KEYWORD_ONLY \<longrightarrow>
          (required p \<longleftrightarrow> (\<not> null f \<and> default f = PNone \<and> \<not> fo))
          \<and> (\<not> required p \<longrightarrow> p_default p = Option NoneSentinel)
          \<and> p_annotation p = get_field_type f)"
proof (intro conjI ballI impI)
  have "field_parameter n f fo \<in> set (model_parameters m fo aid)"
    using assms(2,3) by (force simp: model_parameters_eq)
  then show "\<exists>p \<in> set (model_parameters m fo aid). p_name p = n \<and> p_kind p = KEYWORD_ONLY"
    by (rule bexI [rotated]) (simp add: field_parameter_def)
next
  fix p
  assume p: "p \<in> set (model_parameters m fo aid)" "p_name p = n \<and> p_kind p = KEYWORD_ONLY"
  from keyword_parameter_origin [OF p(1)] p(2)
  obtain n' g where g: "(n', g) \<in> set (fields_map m)" "p = field_parameter n' g fo"
    by blast
  from g(2) p(2) have "n' = n" by (simp add: field_parameter_def)
  with g(1) assms(1,2) have "g = f" by (meson distinct_fields_unique)
  with g(2) \<open>n' = n\<close> have eq: "p = field_parameter n f fo" by simp
  show "required p \<longleftrightarrow> (\<not> null f \<and> default f = PNone \<and> \<not> fo)"
    by (simp add: eq field_parameter_def required_def is_required_def)
  show "p_default p = Option NoneSentinel" if "\<not> required p"
    using that by (simp add: eq field_parameter_def required_def split: if_splits)
  show "p_annotation p = get_field_type f"
    by (simp add: eq field_parameter_def)
qed

text \<open>
  The theorem at the field \<^verbatim>\<open>title\<close> of the \<^verbatim>\<open>Task\<close> model: required in create mode,
  optional in edit mode.
\<close>

theorem field_parameter_requiredness_witness:
  "distinct (map fst (fields_map task_model))
   \<and> (''title'', plain_field OtherField) \<in> set (fields_map task_model)
   \<and> \<not> skipped (plain_field OtherField)
   \<and> (\<exists>p \<in> set (model_parameters task_model False False).
        p_name p = ''title'' \<and> p_kind p = KEYWORD_ONLY \<and> required p
        \<and> p_annotation p = Class_str)
   \<and> (\<exists>p \<in> set (model_parameters task_model True True).
        p_name p = ''title'' \<and> p_kind p = KEYWORD_ONLY \<and> \<not> required p
        \<and> p_default p = Option NoneSentinel)"
proof -
  have d: "distinct (map fst (fields_map task_model))"
    by (simp add: task_model_def)
  have i: "(''title'', plain_field OtherField) \<in> set (fields_map task_model)"
    by (simp add: task_model_def)
  have k: "\<not> skipped (plain_field OtherField)"
    by (simp add: skipped_def plain_field_def)
  have f: "\<not> null (plain_field OtherField) \<and> default (plain_field OtherField) = PNone"
    "get_field_type (plain_field OtherField) = Class_str"
    by (simp_all add: plain_field_def get_field_type_def)
  from field_parameter_requiredness [OF d i k, of False False] f
  have a: "\<exists>p \<in> set (model_parameters task_model False False).
        p_name p = ''title'' \<and> p_kind p = KEYWORD_ONLY \<and> required p
        \<and> p_annotation p = Class_str"
    by auto
  from field_parameter_requiredness [OF d i k, of True True]
  have b: "\<exists>p \<in> set (model_parameters task_model True True).
        p_name p = ''title'' \<and> p_kind p = KEYWORD_ONLY \<and> \<not> required p
        \<and> p_default p = Option NoneSentinel"
    by auto
  from d i k a b show ?thesis by blast
qed

section \<open>The app shell: results\<close>

text \<open>
  An object that is not a model class makes the constructor raise with no command
  registered; the exception is a \<^verbatim>\<open>TypeError\<close> only when the object has a \<^verbatim>\<open>__name__\<close>.
\<close>

lemma ModelTyper_rejects_non_model:
  assumes "\<And>m. obj \<noteq> ModelClass m"
  shows "ModelTyper obj =
    (Inl (if obj = NonClass None then AttributeError ''__name__'' else TypeError), [])"
proof (cases obj)
  case (ModelClass m)
  with assms [of m] show ?thesis by blast
next
  case (OtherClass n)
  then show ?thesis by (simp add: ModelTyper_def add_model_methods_def)
next
  case (NonClass n)
  then show ?thesis by (cases n) (simp_all add: ModelTyper_def add_model_methods_def)
qed

text \<open>
  Claim C4 says that every object that is not a model makes the construction fail
  with a type error. \<^verbatim>\<open>_add_model_methods\<close> reads \<^verbatim>\<open>model.__name__\<close> on its first line,
  before the \<^verbatim>\<open>issubclass\<close> test: an object with no such attribute (the number 42, an
  instance of a model) raises \<^verbatim>\<open>AttributeError\<close>, where the docstring of the function
  promises \<^verbatim>\<open>TypeError\<close>. No command is registered.
\<close>

theorem ModelTyper_nameless_object_AttributeError:
  "ModelTyper (NonClass None) = (Inl (AttributeError ''__name__''), [])"
  by (simp add: ModelTyper_def add_model_methods_def)

section \<open>The command handlers: results\<close>

lemma show_lines_ok:
  assumes "\<forall>f \<in> set fs. map_of inst f \<noteq> None"
  shows "show_lines fs inst = Inr (map (\<lambda>f. ''* '' @ f @ '': '' @ py_str (the (map_of inst f))) fs)"
  using assms by (induction fs) (auto simp: getattr_def)

lemma show_instance_ok:
  assumes "\<forall>f \<in> set (map fst (fields_map m)). map_of inst f \<noteq> None"
  shows "show_instance m inst w =
    (Inr (), w\<lparr>trace := trace w @ [Console (Panel ''Info'' ''white''
       (join [CHR 0x0A] (map (\<lambda>f. ''* '' @ f @ '': '' @ py_str (the (map_of inst f)))
          (map fst (fields_map m)))))]\<rparr>)"
  unfolding show_instance_def show_lines_ok [OF assms]
  by (simp add: info_def make_panel_printer_def)

lemma persist_calls_append:
  "persist_calls (xs @ ys) = persist_calls xs @ persist_calls ys"
  by (induction xs rule: persist_calls.induct) simp_all

lemma show_instance_calls:
  "persist_calls (trace (snd (show_instance m inst w))) = persist_calls (trace w)"
  by (simp add: show_instance_def info_def make_panel_printer_def persist_calls_append
      split: sum.splits)

lemma map_of_setattr: "map_of (setattr inst n v) = (map_of inst)(n \<mapsto> v)"
  by (induction inst n v rule: setattr.induct) auto

lemma assign_loop_changes:
  assumes "map_of (assign_loop args inst) k \<noteq> map_of inst k"
  shows "\<exists>v. (k, v) \<in> set args \<and> v \<noteq> PNone"
  using assms
proof (induction args inst rule: assign_loop.induct)
  case (1 inst)
  then show ?case by simp
next
  case (2 key v rest inst)
  show ?case
  proof (cases "map_of (if v \<noteq> PNone then setattr inst key v else inst) k = map_of inst k")
    case True
    with 2 show ?thesis by auto
  next
    case False
    then have "v \<noteq> PNone \<and> key = k"
      by (auto simp: map_of_setattr split: if_splits)
    then show ?thesis by auto
  qed
qed

lemma upper_Task: "upper (model_name task_model) = ''TASK''" by code_simp

lemma str_int_42: "str_int 42 = ''42''" by code_simp

lemma str_int_7: "str_int 7 = ''7''" by code_simp

lemma str_int_1: "str_int 1 = ''1''" by code_simp

text \<open>
  Claim C1 says that \<^verbatim>\<open>edit\<close> catches the not-found signal of \<^verbatim>\<open>get\<close>, prints an error
  message and returns normally. \<^verbatim>\<open>edit\<close> has no \<^verbatim>\<open>try\<close>, unlike \<^verbatim>\<open>show\<close> and \<^verbatim>\<open>delete\<close>
  beside it: on an empty store \<^verbatim>\<open>edit 42 --done true\<close> lets \<^verbatim>\<open>DoesNotExist\<close> out and
  prints nothing.
\<close>

theorem edit_not_found_propagates:
  "edit task_layer task_model [(''id'', PInt 42), (''done'', PBool True)] (start []) =
     (Inl DoesNotExist, \<lparr>store = [], trace = [Persist (CallGet (PInt 42))]\<rparr>)
   \<and> console (trace (snd
        (edit task_layer task_model [(''id'', PInt 42), (''done'', PBool True)] (start [])))) = []"
  by code_simp

text \<open>
  Claim C2, amended: \<^verbatim>\<open>create\<close> calls the persistence layer once to construct and
  persist the instance from the keyword fields and, when that call returns an
  instance, once more to save that instance; no call is repeated. This holds for
  every layer, model, keyword fields and state.
\<close>

theorem create_calls_create_then_save:
  "persist_calls (trace (snd (create L m kw w))) =
     persist_calls (trace w) @
       (case model_create L kw (store w) of
          (Inl e, s1) \<Rightarrow> [CallCreate kw]
        | (Inr inst, s1) \<Rightarrow> [CallCreate kw, CallSave inst])"
proof (cases "model_create L kw (store w)")
  case (Pair r s1)
  show ?thesis
  proof (cases r)
    case (Inl e)
    with Pair show ?thesis
      by (simp add: create_def call_create_def perform_def persist_calls_append)
  next
    case (Inr inst)
    obtain r2 s2 where s: "instance_save L inst s1 = (r2, s2)" by (cases "instance_save L inst s1")
    with Pair Inr show ?thesis
      by (cases r2)
         (simp_all add: create_def call_create_def call_save_def perform_def
            persist_calls_append show_instance_calls)
  qed
qed

text \<open>
  The theorem on an empty store of tasks.
\<close>

theorem create_calls_create_then_save_witness:
  "persist_calls (trace (snd
      (create task_layer task_model [(''title'', PStr ''buy milk'')] (start [])))) =
     [CallCreate [(''title'', PStr ''buy milk'')],
      CallSave [(''id'', PInt 1), (''title'', PStr ''buy milk''), (''done'', PBool False),
                (''created'', PNone)]]"
proof -
  have h: "model_create task_layer [(''title'', PStr ''buy milk'')] (store (start [])) =
     (Inr [(''id'', PInt 1), (''title'', PStr ''buy milk''), (''done'', PBool False),
           (''created'', PNone)],
      [[(''id'', PInt 1), (''title'', PStr ''buy milk''), (''done'', PBool False),
        (''created'', PNone)]])"
    by (simp add: task_layer_def rows_layer_def start_def task_model_def plain_field_def Let_def)
  have t: "persist_calls (trace (start [])) = []"
    by (simp add: start_def)
  from create_calls_create_then_save [of task_layer task_model "[(''title'', PStr ''buy milk'')]" "start []"]
  show ?thesis
    unfolding h t by simp
qed

text \<open>
  Claim C2 as stated, exactly one persistence mutation, fails: \<^verbatim>\<open>create --title "buy
  milk"\<close> on an empty store makes two, \<^verbatim>\<open>model.create\<close> and then \<^verbatim>\<open>instance.save\<close>.
\<close>

theorem create_makes_two_mutations:
  "persist_calls (trace (snd
      (create task_layer task_model [(''title'', PStr ''buy milk'')] (start [])))) =
     [CallCreate [(''title'', PStr ''buy milk'')],
      CallSave [(''id'', PInt 1), (''title'', PStr ''buy milk''), (''done'', PBool False),
                (''created'', PNone)]]
   \<and> length (filter is_mutation (persist_calls (trace (snd
      (create task_layer task_model [(''title'', PStr ''buy milk'')] (start [])))))) \<noteq> 1"
  by code_simp

text \<open>
  Claim C8: when \<^verbatim>\<open>get\<close> raises the not-found signal, \<^verbatim>\<open>show\<close> prints the error panel
  \<^verbatim>\<open><MODEL> with ID <id> not found.\<close> with the model's name in upper case and returns
  normally; when \<^verbatim>\<open>get\<close> returns an instance (which has every field of the model as an
  attribute), it prints one info panel with the lines \<^verbatim>\<open>* <field>: <value>\<close> of all the
  fields, in the order of the field mapping, joined by newlines.
\<close>

theorem show_not_found_or_rendered:
  "(model_get L (PInt i) (store w) = (Inl DoesNotExist, s') \<longrightarrow>
      show_cmd L m i w =
        (Inr (), \<lparr>store = s', trace = trace w @
           [Persist (CallGet (PInt i)),
            Console (Panel ''Error'' ''red''
              (upper (model_name m) @ '' with ID '' @ str_int i @ '' not found.''))]\<rparr>))
   \<and> (model_get L (PInt i) (store w) = (Inr inst, s')
        \<and> (\<forall>f \<in> set (map fst (fields_map m)). map_of inst f \<noteq> None) \<longrightarrow>
      show_cmd L m i w =
        (Inr (), \<lparr>store = s', trace = trace w @
           [Persist (CallGet (PInt i)),
            Console (Panel ''Info'' ''white''
              (join [CHR 0x0A]
                 (map (\<lambda>f. ''* '' @ f @ '': '' @ py_str (the (map_of inst f)))
                    (map fst (fields_map m)))))]\<rparr>))"
proof (intro conjI impI)
  assume "model_get L (PInt i) (store w) = (Inl DoesNotExist, s')"
  then show "show_cmd L m i w =
        (Inr (), \<lparr>store = s', trace = trace w @
           [Persist (CallGet (PInt i)),
            Console (Panel ''Error'' ''red''
              (upper (model_name m) @ '' with ID '' @ str_int i @ '' not found.''))]\<rparr>)"
    by (simp add: show_cmd_def call_get_def perform_def error_def make_panel_printer_def
        not_found_def)
next
  assume a: "model_get L (PInt i) (store w) = (Inr inst, s')
        \<and> (\<forall>f \<in> set (map fst (fields_map m)). map_of inst f \<noteq> None)"
  then have "\<forall>f \<in> set (map fst (fields_map m)). map_of inst f \<noteq> None" by blast
  note ok = show_instance_ok [OF this]
  from a show "show_cmd L m i w =
        (Inr (), \<lparr>store = s', trace = trace w @
           [Persist (CallGet (PInt i)),
            Console (Panel ''Info'' ''white''
              (join [CHR 0x0A]
                 (map (\<lambda>f. ''* '' @ f @ '': '' @ py_str (the (map_of inst f)))
                    (map fst (fields_map m)))))]\<rparr>)"
    by (simp add: show_cmd_def call_get_def perform_def ok)
qed

text \<open>
  The theorem at \<^verbatim>\<open>show 42\<close> on an empty store and \<^verbatim>\<open>show 1\<close> on a store with task 1.
\<close>

theorem show_not_found_or_rendered_witness:
  "show_cmd task_layer task_model 42 (start []) =
     (Inr (), \<lparr>store = [], trace =
        [Persist (CallGet (PInt 42)),
         Console (Panel ''Error'' ''red'' ''TASK with ID 42 not found.'')]\<rparr>)
   \<and> show_cmd task_layer task_model 1 (start [task1]) =
     (Inr (), \<lparr>store = [task1], trace =
        [Persist (CallGet (PInt 1)),
         Console (Panel ''Info'' ''white''
           (''* id: 1'' @ [CHR 0x0A] @ ''* title: buy milk'' @ [CHR 0x0A] @ ''* done: False''
            @ [CHR 0x0A] @ ''* created: 2024-01-01 00:00:00''))]\<rparr>)"
proof
  have h: "model_get task_layer (PInt 42) (store (start [])) = (Inl DoesNotExist, [])"
    by (simp add: task_layer_def rows_layer_def start_def)
  from show_not_found_or_rendered [where L = task_layer and i = 42 and w = "start []" and s' = "[]" and m = task_model] h
  show "show_cmd task_layer task_model 42 (start []) =
     (Inr (), \<lparr>store = [], trace =
        [Persist (CallGet (PInt 42)),
         Console (Panel ''Error'' ''red'' ''TASK with ID 42 not found.'')]\<rparr>)"
    by (simp add: start_def upper_Task str_int_42)
next
  have h: "model_get task_layer (PInt 1) (store (start [task1])) = (Inr task1, [task1])"
    by (simp add: task_layer_def rows_layer_def start_def task1_def)
  have a: "\<forall>f \<in> set (map fst (fields_map task_model)). map_of task1 f \<noteq> None"
    by (simp add: task_model_def task1_def)
  from show_not_found_or_rendered [where L = task_layer and i = 1 and w = "start [task1]" and s' = "[task1]"
      and m = task_model and inst = task1] h a
  show "show_cmd task_layer task_model 1 (start [task1]) =
     (Inr (), \<lparr>store = [task1], trace =
        [Persist (CallGet (PInt 1)),
         Console (Panel ''Info'' ''white''
           (''* id: 1'' @ [CHR 0x0A] @ ''* title: buy milk'' @ [CHR 0x0A] @ ''* done: False''
            @ [CHR 0x0A] @ ''* created: 2024-01-01 00:00:00''))]\<rparr>)"
    by (simp add: start_def task_model_def task1_def str_int_1)
qed

text \<open>
  Claim C9: when \<^verbatim>\<open>get\<close> raises the not-found signal, \<^verbatim>\<open>delete\<close> prints the error panel,
  returns normally and makes no delete call; when \<^verbatim>\<open>get\<close> returns an instance and its
  deletion succeeds, the one delete call is made on that instance and the info panel
  \<^verbatim>\<open><MODEL> with ID <id> deleted successfully.\<close> is printed.
\<close>

theorem delete_not_found_or_deleted:
  "(model_get L (PInt i) (store w) = (Inl DoesNotExist, s1) \<longrightarrow>
      delete L m i w =
        (Inr (), \<lparr>store = s1, trace = trace w @
           [Persist (CallGet (PInt i)),
            Console (Panel ''Error'' ''red''
              (upper (model_name m) @ '' with ID '' @ str_int i @ '' not found.''))]\<rparr>)
      \<and> filter is_delete (persist_calls (trace (snd (delete L m i w)))) =
          filter is_delete (persist_calls (trace w)))
   \<and> (model_get L (PInt i) (store w) = (Inr inst, s1)
        \<and> instance_delete L inst s1 = (Inr (), s2) \<longrightarrow>
      delete L m i w =
        (Inr (), \<lparr>store = s2, trace = trace w @
           [Persist (CallGet (PInt i)), Persist (CallDelete inst),
            Console (Panel ''Info'' ''white''
              (upper (model_name m) @ '' with ID '' @ str_int i @ '' deleted successfully.''))]\<rparr>))"
  by (simp add: delete_def call_get_def call_delete_def perform_def error_def info_def
      make_panel_printer_def not_found_def persist_calls_append)

text \<open>
  The theorem at \<^verbatim>\<open>delete 7\<close> and \<^verbatim>\<open>delete 1\<close> on a store with task 1 only.
\<close>

theorem delete_not_found_or_deleted_witness:
  "delete task_layer task_model 7 (start [task1]) =
     (Inr (), \<lparr>store = [task1], trace =
        [Persist (CallGet (PInt 7)),
         Console (Panel ''Error'' ''red'' ''TASK with ID 7 not found.'')]\<rparr>)
   \<and> delete task_layer task_model 1 (start [task1]) =
     (Inr (), \<lparr>store = [], trace =
        [Persist (CallGet (PInt 1)), Persist (CallDelete task1),
         Console (Panel ''Info'' ''white'' ''TASK with ID 1 deleted successfully.'')]\<rparr>)"
proof
  have h: "model_get task_layer (PInt 7) (store (start [task1])) = (Inl DoesNotExist, [task1])"
    by (simp add: task_layer_def rows_layer_def start_def task1_def)
  from delete_not_found_or_deleted [where L = task_layer and i = 7 and w = "start [task1]" and ?s1.0 = "[task1]"
      and m = task_model] h
  show "delete task_layer task_model 7 (start [task1]) =
     (Inr (), \<lparr>store = [task1], trace =
        [Persist (CallGet (PInt 7)),
         Console (Panel ''Error'' ''red'' ''TASK with ID 7 not found.'')]\<rparr>)"
    by (simp add: start_def upper_Task str_int_7)
next
  have h: "model_get task_layer (PInt 1) (store (start [task1])) = (Inr task1, [task1])"
    by (simp add: task_layer_def rows_layer_def start_def task1_def)
  have d: "instance_delete task_layer task1 [task1] = (Inr (), [])"
    by (simp add: task_layer_def rows_layer_def same_id_def)
  from delete_not_found_or_deleted [where L = task_layer and i = 1 and w = "start [task1]" and ?s1.0 = "[task1]"
      and m = task_model and inst = task1 and ?s2.0 = "[]"] h d
  show "delete task_layer task_model 1 (start [task1]) =
     (Inr (), \<lparr>store = [], trace =
        [Persist (CallGet (PInt 1)), Persist (CallDelete task1),
         Console (Panel ''Info'' ''white'' ''TASK with ID 1 deleted successfully.'')]\<rparr>)"
    by (simp add: start_def upper_Task str_int_1)
qed

text \<open>
  Claim C10: \<^verbatim>\<open>edit\<close> on an existing instance pops \<^verbatim>\<open>id\<close> from the keyword fields before
  the assignment loop, so the instance it saves has the \<^verbatim>\<open>id\<close> attribute of the one
  fetched, and an attribute differs from the fetched one only if it is not \<^verbatim>\<open>id\<close> and
  was supplied with a value other than \<^verbatim>\<open>None\<close>.
\<close>

theorem edit_keeps_identifier:
  assumes "map_of kw ''id'' = Some i"
    and "model_get L i (store w) = (Inr inst, s1)"
  shows "\<exists>args. pop kw ''id'' = Some (i, args)
      \<and> ''id'' \<notin> fst ` set args
      \<and> persist_calls (trace (snd (edit L m kw w))) =
          persist_calls (trace w) @ [CallGet i, CallSave (assign_loop args inst)]
      \<and> getattr (assign_loop args inst) ''id'' = getattr inst ''id''
      \<and> (\<forall>k. getattr (assign_loop args inst) k \<noteq> getattr inst k \<longrightarrow>
             k \<noteq> ''id'' \<and> (\<exists>v. (k, v) \<in> set kw \<and> v \<noteq> PNone))"
proof -
  define args where "args = filter (\<lambda>(k, _). k \<noteq> ''id'') kw"
  have p: "pop kw ''id'' = Some (i, args)"
    using assms(1) by (simp add: pop_def args_def)
  have noid: "''id'' \<notin> fst ` set args"
    by (auto simp: args_def)
  have sub: "set args \<subseteq> set kw"
    by (auto simp: args_def)
  have ch: "k \<noteq> ''id'' \<and> (\<exists>v. (k, v) \<in> set kw \<and> v \<noteq> PNone)"
    if "map_of (assign_loop args inst) k \<noteq> map_of inst k" for k
  proof -
    from assign_loop_changes [OF that] obtain v where v: "(k, v) \<in> set args" "v \<noteq> PNone"
      by blast
    from v(1) noid have "k \<noteq> ''id''" by force
    with v sub show ?thesis by blast
  qed
  have "map_of (assign_loop args inst) ''id'' = map_of inst ''id''"
    using ch [of "''id''"] by blast
  then have same: "getattr (assign_loop args inst) ''id'' = getattr inst ''id''"
    by (simp add: getattr_def)
  have ch': "\<forall>k. getattr (assign_loop args inst) k \<noteq> getattr inst k \<longrightarrow>
             k \<noteq> ''id'' \<and> (\<exists>v. (k, v) \<in> set kw \<and> v \<noteq> PNone)"
  proof (intro allI impI)
    fix k assume "getattr (assign_loop args inst) k \<noteq> getattr inst k"
    then have "map_of (assign_loop args inst) k \<noteq> map_of inst k"
      by (auto simp: getattr_def)
    then show "k \<noteq> ''id'' \<and> (\<exists>v. (k, v) \<in> set kw \<and> v \<noteq> PNone)" by (rule ch)
  qed
  obtain r2 s2 where s: "instance_save L (assign_loop args inst) s1 = (r2, s2)"
    by (cases "instance_save L (assign_loop args inst) s1")
  have calls: "persist_calls (trace (snd (edit L m kw w))) =
          persist_calls (trace w) @ [CallGet i, CallSave (assign_loop args inst)]"
    using p assms(2) s
    by (cases r2)
       (simp_all add: edit_def call_get_def call_save_def perform_def
          persist_calls_append show_instance_calls)
  from p noid calls same ch' show ?thesis by blast
qed

text \<open>
  The theorem at \<^verbatim>\<open>edit 1 --done true\<close> on a store with task 1: \<^verbatim>\<open>title\<close> is unchanged.
\<close>

theorem edit_keeps_identifier_witness:
  "map_of [(''id'', PInt 1), (''done'', PBool True), (''title'', PNone)] ''id'' = Some (PInt 1)
   \<and> model_get task_layer (PInt 1) (store (start [task1])) = (Inr task1, [task1])
   \<and> persist_calls (trace (snd (edit task_layer task_model
        [(''id'', PInt 1), (''done'', PBool True), (''title'', PNone)] (start [task1])))) =
      [CallGet (PInt 1),
       CallSave [(''id'', PInt 1), (''title'', PStr ''buy milk''), (''done'', PBool True),
                 (''created'', PObj ''2024-01-01 00:00:00'')]]"
proof -
  let ?kw = "[(''id'', PInt 1), (''done'', PBool True), (''title'', PNone)]"
  have a: "map_of ?kw ''id'' = Some (PInt 1)" by simp
  have h: "model_get task_layer (PInt 1) (store (start [task1])) = (Inr task1, [task1])"
    by (simp add: task_layer_def rows_layer_def start_def task1_def)
  from edit_keeps_identifier [OF a h, of task_model] obtain args where
    r: "pop ?kw ''id'' = Some (PInt 1, args)"
       "persist_calls (trace (snd (edit task_layer task_model ?kw (start [task1])))) =
          persist_calls (trace (start [task1])) @ [CallGet (PInt 1), CallSave (assign_loop args task1)]"
    by blast
  from r(1) have "args = [(''done'', PBool True), (''title'', PNone)]"
    by (simp add: pop_def)
  with r(2) a h show ?thesis
    by (simp add: start_def task1_def)
qed

end
